theory Spec2Isabelle
  imports Complex_Main "HOL-Library.Sublist"
begin

section \<open>The notebooks as syntax\<close>

text \<open>
  The repository is one file, \<^verbatim>\<open>src/forsyth-genetics/Example_Abagen_Use.ipynb\<close>, holding
  two notebook documents one after the other: the abagen notebook (lines 1 to 210) and the
  PyTorch notebook (lines 211 to 824). A notebook is the list of its code cells in document
  order, a cell the list of its statements; markdown cells and comments carry no code and
  are left out. Expressions and statements follow Python's abstract syntax. Literals are
  kept as written; a keyword argument stays in the argument list, where Python evaluates
  it, as \<open>EKeyword\<close>; a line starting with \<^verbatim>\<open>!\<close> is a shell command with its words.
\<close>

datatype expr =
    EName string
  | EConst string
  | EStr string
  | EAttr expr string
  | ESubscript expr expr
  | ESlice
  | ECall expr "expr list"
  | EKeyword string expr
  | ETuple "expr list"
  | EList "expr list"
  | EBinOp expr string expr
  | EUnaryOp string expr
  | ECompare expr string expr
  | EJoinedStr "expr list"
  | EFormatted expr string

datatype stmt =
    SExpr expr
  | SAssign expr expr
  | SImport string string
  | SImportFrom string "string list"
  | SShell "string list"
  | SReturn expr
  | SBreak
  | SContinue
  | SFunctionDef string "string list" "stmt list"
  | SClassDef string "expr list" "stmt list"
  | SFor expr expr "stmt list"
  | SWhile expr "stmt list"
  | SIf expr "stmt list" "stmt list"
  | STry "stmt list" "stmt list" "stmt list"
  | SWith expr "stmt list"
  | SRaise expr
  | SAssert expr

type_synonym cell = "stmt list"
type_synonym notebook = "cell list"

subsection \<open>The abagen notebook (lines 1 to 210)\<close>

definition atlas_image :: expr where
  "atlas_image = ESubscript (EName ''atlas'') (EStr ''image'')"

definition atlas_info :: expr where
  "atlas_info = ESubscript (EName ''atlas'') (EStr ''info'')"

definition atlas_csv :: string where
  "atlas_csv =
     ''/srv/conda/envs/notebook/lib/python3.10/site-packages/abagen/data/atlas-desikankilliany.csv''"

definition abagen_notebook :: notebook where
  "abagen_notebook =
   [ [],
     [SImport ''abagen'' ''abagen''],
     [SAssign (EName ''files'')
        (ECall (EAttr (EName ''abagen'') ''fetch_microarray'')
           [EKeyword ''donors'' (EStr ''all''),
            EKeyword ''data_dir'' (EStr ''/home/jovyan/shared/abagen-data'')])],
     [SExpr (EName ''files'')],
     [SAssign (EName ''atlas'')
        (ECall (EAttr (EName ''abagen'') ''fetch_desikan_killiany'')
           [EKeyword ''surface'' (EConst ''True'')]),
      SExpr atlas_image],
     [SAssign (EName ''expression'')
        (ECall (EAttr (EName ''abagen'') ''get_expression_data'')
           [atlas_image,
            EKeyword ''data_dir'' (EStr ''/home/jovyan/shared/abagen-data'')])],
     [SExpr (EName ''expression'')],
     [SImportFrom ''abagen'' [''reporting''],
      SAssign (EName ''generator'')
        (ECall (EAttr (EName ''reporting'') ''Report'') [atlas_image, atlas_info]),
      SAssign (EName ''report'')
        (ECall (EAttr (EName ''generator'') ''gen_report'') [])],
     [SExpr (EName ''report'')],
     [SImportFrom ''IPython.display'' [''display'', ''Markdown''],
      SExpr (ECall (EName ''display'') [ECall (EName ''Markdown'') [EName ''report'']])],
     [SAssign (ETuple [EName ''expression_maxprobe'', EName ''report_maxprobe''])
        (ECall (EAttr (EName ''abagen'') ''get_expression_data'')
           [atlas_image, atlas_info,
            EKeyword ''probe_selection'' (EStr ''max_intensity''),
            EKeyword ''return_report'' (EConst ''True'')])],
     [SExpr (EName ''expression_maxprobe'')],
     [SImportFrom ''IPython.display'' [''display'', ''Markdown''],
      SExpr (ECall (EName ''display'')
               [ECall (EName ''Markdown'') [EName ''report_maxprobe'']])],
     [SExpr (ECall (EAttr (EName ''expression'') ''to_csv'')
               [EStr ''Expression_AHBA_abagen_defaultparam.csv'',
                EKeyword ''index'' (EConst ''False'')])],
     [SExpr (ECall (EAttr (EName ''expression_maxprobe'') ''to_csv'')
               [EStr ''Expression_AHBA_abagen_maxprobe.csv'',
                EKeyword ''index'' (EConst ''False'')])],
     [SShell [''head'', atlas_csv],
      SShell [''tail'', atlas_csv],
      SShell [''cp'', atlas_csv, ''./atlas-desikankilliany_copy.csv'']] ]"

subsection \<open>The PyTorch notebook (lines 211 to 824)\<close>

text \<open>Pieces of syntax that the notebook repeats.\<close>

definition call_method :: "string \<Rightarrow> string \<Rightarrow> expr list \<Rightarrow> expr" where
  "call_method obj m args = ECall (EAttr (EName obj) m) args"

definition plot_axes :: "stmt list" where
  "plot_axes =
     [SExpr (call_method ''plt'' ''plot''
        [EList [EUnaryOp ''-'' (EConst ''3''), EConst ''3''], EList [EConst ''0'', EConst ''0''],
         EStr ''k-'', EKeyword ''lw'' (EConst ''0.5'')]),
      SExpr (call_method ''plt'' ''plot''
        [EList [EConst ''0'', EConst ''0''], EList [EUnaryOp ''-'' (EConst ''3''), EConst ''3''],
         EStr ''k-'', EKeyword ''lw'' (EConst ''0.5'')])]"

definition linspace_call :: expr where
  "linspace_call =
     ECall (EAttr (EName ''torch'') ''linspace'')
       [EConst ''0'', EBinOp (EAttr (EName ''np'') ''pi'') ''*'' (EConst ''2''), EConst ''100'']"

text \<open>Lines 353 to 356.\<close>

definition curve_src :: stmt where
  "curve_src =
     SFunctionDef ''curve'' [''t'']
       [SAssign (EName ''x'')
          (EBinOp (call_method ''torch'' ''sin'' [EName ''t'']) ''-'' (EConst ''0.5'')),
        SAssign (EName ''y'')
          (EBinOp
             (EBinOp (EBinOp (call_method ''torch'' ''cos'' [EName ''t'']) ''*'' (EConst ''2''))
                ''+'' (call_method ''torch'' ''cos'' [EBinOp (EConst ''2'') ''*'' (EName ''t'')]))
             ''+'' (EConst ''0.75'')),
        SReturn (ETuple [EName ''x'', EName ''y''])]"

text \<open>Lines 378 to 380.\<close>

definition loss_src :: stmt where
  "loss_src =
     SFunctionDef ''loss'' [''t'']
       [SAssign (ETuple [EName ''x'', EName ''y'']) (ECall (EName ''curve'') [EName ''t'']),
        SReturn (call_method ''torch'' ''sqrt''
          [EBinOp
             (EBinOp (EBinOp (EName ''x'') ''-'' (EConst ''0'')) ''**'' (EConst ''2''))
             ''+''
             (EBinOp (EBinOp (EName ''y'') ''-'' (EConst ''0'')) ''**'' (EConst ''2''))])]"

text \<open>Lines 544 to 551.\<close>

definition MNISTDataset_src :: stmt where
  "MNISTDataset_src =
     SClassDef ''MNISTDataset''
       [EAttr (EAttr (EAttr (EName ''torch'') ''utils'') ''data'') ''Dataset'']
       [SFunctionDef ''__init__'' [''self'', ''images'', ''labels'']
          [SAssign (EAttr (EName ''self'') ''images'') (call_method ''images'' ''float'' []),
           SAssign (EAttr (EName ''self'') ''labels'') (EName ''labels'')],
        SFunctionDef ''__getitem__'' [''self'', ''ii'']
          [SReturn (ETuple
             [ESubscript (EAttr (EName ''self'') ''images'') (EName ''ii''),
              ESubscript (EAttr (EName ''self'') ''labels'') (EName ''ii'')])],
        SFunctionDef ''__len__'' [''self'']
          [SReturn (ECall (EName ''len'') [EAttr (EName ''self'') ''labels''])]]"

text \<open>Lines 648 to 664.\<close>

definition NeuralNetwork_src :: stmt where
  "NeuralNetwork_src =
     SClassDef ''NeuralNetwork'' [EAttr (EName ''nn'') ''Module'']
       [SFunctionDef ''__init__'' [''self'']
          [SExpr (ECall
             (EAttr (ECall (EName ''super'') [EName ''NeuralNetwork'', EName ''self''])
                ''__init__'') []),
           SAssign (EAttr (EName ''self'') ''flatten'') (call_method ''nn'' ''Flatten'' []),
           SAssign (EAttr (EName ''self'') ''linear_relu_stack'')
             (call_method ''nn'' ''Sequential''
                [call_method ''nn'' ''Linear''
                   [EBinOp (EConst ''28'') ''*'' (EConst ''28''), EConst ''512''],
                 call_method ''nn'' ''ReLU'' [],
                 call_method ''nn'' ''Linear'' [EConst ''512'', EConst ''512''],
                 call_method ''nn'' ''ReLU'' [],
                 call_method ''nn'' ''Linear'' [EConst ''512'', EConst ''10''],
                 call_method ''nn'' ''ReLU'' []])],
        SFunctionDef ''forward'' [''self'', ''x'']
          [SAssign (EName ''x'') (ECall (EAttr (EName ''self'') ''flatten'') [EName ''x'']),
           SAssign (EName ''logits'')
             (ECall (EAttr (EName ''self'') ''linear_relu_stack'') [EName ''x'']),
           SReturn (EName ''logits'')]]"

text \<open>Lines 434 to 442: the gradient-descent loop.\<close>

definition sgd_loop :: stmt where
  "sgd_loop =
     SFor (EName ''step_number'') (ECall (EName ''range'') [EConst ''20''])
       [SExpr (call_method ''optimizer'' ''zero_grad'' []),
        SAssign (EName ''dist'') (ECall (EName ''loss'') [EName ''t'']),
        SExpr (ECall (EName ''print'')
          [EStr ''Step number'', EName ''step_number'',
           EStr ''  t = '', ECall (EName ''float'') [EName ''t''],
           EStr ''  loss = '', ECall (EName ''float'') [EName ''dist'']]),
        SExpr (call_method ''dist'' ''backward'' []),
        SExpr (call_method ''optimizer'' ''step'' [])]"

text \<open>Lines 578 to 583.\<close>

definition shape_loop :: stmt where
  "shape_loop =
     SFor (ETuple [EName ''X'', EName ''y'']) (EName ''test_dataloader'')
       [SExpr (ECall (EName ''print'')
          [EStr ''Shape of X [Batch-Size, Image-Channels, Height, Width]: '']),
        SExpr (ECall (EName ''print'')
          [EStr ''     '', EAttr (EName ''X'') ''shape'', EAttr (EName ''X'') ''dtype'']),
        SExpr (ECall (EName ''print'') [EStr ''Shape of y [1 Label per Batch]: '']),
        SExpr (ECall (EName ''print'')
          [EStr ''     '', EAttr (EName ''y'') ''shape'', EAttr (EName ''y'') ''dtype'']),
        SBreak]"

text \<open>Lines 614 to 620.\<close>

definition show_loop :: stmt where
  "show_loop =
     SFor (ETuple [EName ''X_batch'', EName ''y_batch'']) (EName ''train_dataloader'')
       [SFor (ETuple [EName ''ax'', EName ''X'', EName ''y''])
          (ECall (EName ''zip'') [EName ''axs'', EName ''X_batch'', EName ''y_batch''])
          [SExpr (call_method ''ax'' ''imshow'' [EName ''X'']),
           SExpr (call_method ''ax'' ''set_title'' [call_method ''y'' ''item'' []]),
           SExpr (call_method ''ax'' ''axis'' [EStr ''off''])],
        SBreak]"

text \<open>Lines 719 to 733: the training loop.\<close>

definition training_loop :: stmt where
  "training_loop =
     SFor (ETuple [EName ''batch_num'', ETuple [EName ''X'', EName ''y'']])
       (ECall (EName ''enumerate'') [EName ''train_dataloader''])
       [SAssign (EName ''pred'') (ECall (EName ''model'') [EName ''X'']),
        SAssign (EName ''loss'') (ECall (EName ''loss_fn'') [EName ''pred'', EName ''y'']),
        SExpr (call_method ''optimizer'' ''zero_grad'' []),
        SExpr (call_method ''loss'' ''backward'' []),
        SExpr (call_method ''optimizer'' ''step'' []),
        SIf (ECompare (EBinOp (EName ''batch_num'') ''%'' (EConst ''100'')) ''=='' (EConst ''0''))
          [SAssign (ETuple [EName ''loss'', EName ''current''])
             (ETuple [call_method ''loss'' ''item'' [],
                      EBinOp (EName ''batch_num'') ''*'' (ECall (EName ''len'') [EName ''X''])]),
           SExpr (ECall (EName ''print'')
             [EJoinedStr
                [EStr ''loss: '', EFormatted (EName ''loss'') ''>7f'', EStr ''  ['',
                 EFormatted (EName ''current'') ''>5d'', EStr ''/'',
                 EFormatted (EName ''size'') ''>5d'', EStr '']'']])]
          []]"

text \<open>Lines 755 to 772: the evaluation loop.\<close>

definition evaluation_loop :: stmt where
  "evaluation_loop =
     SFor (ETuple [EName ''X_batch'', EName ''y_batch'']) (EName ''test_dataloader'')
       [SIf (ECompare (ECall (EAttr (EAttr (EName ''np'') ''random'') ''rand'') []) ''<''
               (EConst ''0.9''))
          [SContinue] [],
        SFor (ETuple [EName ''ax'', EName ''X'', EName ''y''])
          (ECall (EName ''zip'') [EName ''axs'', EName ''X_batch'', EName ''y_batch''])
          [SExpr (call_method ''ax'' ''imshow'' [EName ''X'']),
           SAssign (EName ''pred'')
             (ECall (EName ''model'')
                [ESubscript (EName ''X'') (ETuple [EConst ''None'', ESlice])]),
           SAssign (EName ''label'') (call_method ''torch'' ''argmax'' [EName ''pred'']),
           SAssign (EName ''y_name'') (ECall (EName ''str'') [call_method ''y'' ''item'' []]),
           SAssign (EName ''label_name'')
             (ECall (EName ''str'') [call_method ''label'' ''item'' []]),
           SExpr (call_method ''ax'' ''set_title''
             [EJoinedStr
                [EStr ''Estimate: '', EFormatted (EName ''label_name'') [],
                 EStr ''; True: '', EFormatted (EName ''y_name'') []]]),
           SExpr (call_method ''ax'' ''axis'' [EStr ''off''])],
        SBreak]"

definition torch_load :: "string \<Rightarrow> expr" where
  "torch_load path =
     call_method ''torch'' ''load'' [EStr path, EKeyword ''weights_only'' (EConst ''True'')]"

definition subplots :: "string \<Rightarrow> stmt list" where
  "subplots k =
     [SAssign (ETuple [EName ''fig'', EName ''axs''])
        (call_method ''plt'' ''subplots''
           [EConst ''2'', EConst ''2'',
            EKeyword ''figsize'' (ETuple [EConst k, EConst k])]),
      SAssign (EName ''axs'') (call_method ''axs'' ''flatten'' [])]"

definition torch_notebook :: notebook where
  "torch_notebook =
   [ [SImport ''torch'' ''torch'',
      SImportFrom ''torch'' [''nn''],
      SImportFrom ''torch.utils.data'' [''DataLoader''],
      SImport ''matplotlib.pyplot'' ''plt''],
     [SAssign (EName ''u'')
        (call_method ''torch'' ''zeros'' [ETuple [EConst ''10'', EConst ''3'']]),
      SAssign (ESubscript (EName ''u'') (ETuple [ESlice, EConst ''0''])) (EConst ''1''),
      SAssign (EName ''u'')
        (EBinOp (EBinOp (EName ''u'') ''-'' (EConst ''0.5'')) ''*'' (EConst ''3.0'')),
      SExpr (ECall (EName ''print'') [EName ''u''])],
     [SImport ''numpy'' ''np'',
      SAssign (EName ''a'') (call_method ''np'' ''zeros'' [ETuple [EConst ''10'', EConst ''3'']]),
      SExpr (call_method ''torch'' ''mean'' [EName ''a''])],
     [SAssign (EName ''a'') (ECall (EAttr (call_method ''u'' ''detach'' []) ''numpy'') []),
      SExpr (ECall (EName ''print'') [ECall (EName ''type'') [EName ''a'']]),
      SExpr (ECall (EName ''print'') [EName ''a''])],
     [curve_src,
      SAssign (EName ''t'') linspace_call,
      SAssign (ETuple [EName ''x'', EName ''y'']) (ECall (EName ''curve'') [EName ''t'']),
      SExpr (call_method ''plt'' ''plot'' [EName ''x'', EName ''y'', EStr ''k-''])]
     @ plot_axes,
     [loss_src,
      SAssign (EName ''t'') (call_method ''torch'' ''tensor'' [EConst ''1.5'']),
      SAssign (EName ''dist'') (ECall (EName ''loss'') [EName ''t'']),
      SExpr (EName ''dist'')],
     [SAssign (EName ''t'')
        (call_method ''torch'' ''tensor''
           [EConst ''1.5'', EKeyword ''requires_grad'' (EConst ''True'')]),
      SAssign (EName ''dist'') (ECall (EName ''loss'') [EName ''t'']),
      SExpr (call_method ''dist'' ''backward'' []),
      SExpr (EAttr (EName ''t'') ''grad'')],
     [SAssign (EName ''t'')
        (call_method ''torch'' ''tensor''
           [EConst ''2.1'', EKeyword ''requires_grad'' (EConst ''True'')]),
      SAssign (EName ''optimizer'')
        (ECall (EAttr (EAttr (EName ''torch'') ''optim'') ''SGD'')
           [EList [EName ''t''], EKeyword ''lr'' (EConst ''0.05'')]),
      sgd_loop,
      SExpr (ECall (EName ''print'') [EName ''t'', ECall (EName ''loss'') [EName ''t'']])],
     [SAssign (ETuple [EName ''x0'', EName ''y0'']) (ECall (EName ''curve'') [EName ''t'']),
      SAssign (EName ''x0'') (ECall (EAttr (call_method ''x0'' ''detach'' []) ''numpy'') []),
      SAssign (EName ''y0'') (ECall (EAttr (call_method ''y0'' ''detach'' []) ''numpy'') []),
      SAssign (ETuple [EName ''x'', EName ''y'']) (ECall (EName ''curve'') [linspace_call]),
      SExpr (call_method ''plt'' ''plot'' [EName ''x'', EName ''y'', EStr ''k-''])]
     @ plot_axes @
     [SExpr (call_method ''plt'' ''plot'' [EName ''x0'', EName ''y0'', EStr ''r.''])],
     [SAssign (ETuple [EName ''training_labels'', EName ''training_images''])
        (torch_load ''/home/jovyan/shared/benson-deep-learning/mnist_train.pt''),
      SAssign (ETuple [EName ''test_labels'', EName ''test_images''])
        (torch_load ''/home/jovyan/shared/benson-deep-learning/mnist_test.pt'')],
     [MNISTDataset_src,
      SAssign (EName ''training_data'')
        (ECall (EName ''MNISTDataset'') [EName ''training_images'', EName ''training_labels'']),
      SAssign (EName ''test_data'')
        (ECall (EName ''MNISTDataset'') [EName ''test_images'', EName ''test_labels''])],
     [SAssign (EName ''batch_size'') (EConst ''64''),
      SAssign (EName ''train_dataloader'')
        (ECall (EName ''DataLoader'')
           [EName ''training_data'', EKeyword ''batch_size'' (EName ''batch_size'')]),
      SAssign (EName ''test_dataloader'')
        (ECall (EName ''DataLoader'')
           [EName ''test_data'', EKeyword ''batch_size'' (EName ''batch_size'')]),
      shape_loop],
     subplots ''4'' @ [show_loop],
     [NeuralNetwork_src,
      SAssign (EName ''model'') (ECall (EName ''NeuralNetwork'') []),
      SExpr (ECall (EName ''print'') [EName ''model''])],
     [SAssign (EName ''loss_fn'') (call_method ''nn'' ''CrossEntropyLoss'' []),
      SAssign (EName ''optimizer'')
        (ECall (EAttr (EAttr (EName ''torch'') ''optim'') ''SGD'')
           [call_method ''model'' ''parameters'' [], EKeyword ''lr'' (EConst ''1e-4'')])],
     [SAssign (EName ''size'')
        (ECall (EName ''len'') [EAttr (EName ''train_dataloader'') ''dataset'']),
      training_loop],
     subplots ''6'' @ [evaluation_loop] ]"

definition repository :: "notebook list" where
  "repository = [abagen_notebook, torch_notebook]"

section \<open>What the notebooks define\<close>

text \<open>
  The functions a statement defines, each under its qualified name: a method is named
  after its class. Definitions nested in loops and branches are found too.
\<close>

fun defs_stmt :: "string \<Rightarrow> stmt \<Rightarrow> string list" where
  "defs_stmt q (SFunctionDef f ps body) =
     (q @ f) # concat (map (defs_stmt (q @ f @ ''.'')) body)"
| "defs_stmt q (SClassDef c bases body) = concat (map (defs_stmt (q @ c @ ''.'')) body)"
| "defs_stmt q (SFor target iter body) = concat (map (defs_stmt q) body)"
| "defs_stmt q (SWhile cond body) = concat (map (defs_stmt q) body)"
| "defs_stmt q (SIf cond body orelse) =
     concat (map (defs_stmt q) body) @ concat (map (defs_stmt q) orelse)"
| "defs_stmt q (STry body handlers final) =
     concat (map (defs_stmt q) body) @ concat (map (defs_stmt q) handlers)
     @ concat (map (defs_stmt q) final)"
| "defs_stmt q (SWith item body) = concat (map (defs_stmt q) body)"
| "defs_stmt q _ = []"

definition function_defs :: "notebook \<Rightarrow> string list" where
  "function_defs nb = concat (map (defs_stmt []) (concat nb))"




section \<open>Control flow and error handling\<close>

text \<open>
  The control-flow keywords of a statement, in source order. A function or class
  definition is searched too, since its body runs when the function is called.
\<close>

fun control_flow :: "stmt \<Rightarrow> string list" where
  "control_flow (SFor target iter body) = ''for'' # concat (map control_flow body)"
| "control_flow (SWhile cond body) = ''while'' # concat (map control_flow body)"
| "control_flow (SIf cond body orelse) =
     ''if'' # concat (map control_flow body) @ concat (map control_flow orelse)"
| "control_flow (STry body handlers final) =
     ''try'' # concat (map control_flow body) @ concat (map control_flow handlers)
     @ concat (map control_flow final)"
| "control_flow (SWith item body) = ''with'' # concat (map control_flow body)"
| "control_flow SBreak = [''break'']"
| "control_flow SContinue = [''continue'']"
| "control_flow (SRaise e) = [''raise'']"
| "control_flow (SAssert e) = [''assert'']"
| "control_flow (SFunctionDef f ps body) = concat (map control_flow body)"
| "control_flow (SClassDef c bases body) = concat (map control_flow body)"
| "control_flow _ = []"

definition cell_control_flow :: "cell \<Rightarrow> string list" where
  "cell_control_flow c = concat (map control_flow c)"




text \<open>
  Error handling is a \<^verbatim>\<open>try\<close>, \<^verbatim>\<open>with\<close>, \<^verbatim>\<open>raise\<close> or \<^verbatim>\<open>assert\<close> statement: the only
  statements of Python that catch, raise or check for an error.
\<close>

definition error_keywords :: "string list" where
  "error_keywords = [''try'', ''with'', ''raise'', ''assert'']"

definition error_handling :: "notebook \<Rightarrow> string list" where
  "error_handling nb =
     filter (\<lambda>k. k \<in> set error_keywords) (concat (map cell_control_flow nb))"





section \<open>The order of events in a run\<close>

text \<open>
  What running a statement does, as far as the outside can see: names are read and
  bound, library functions are invoked and return, shell commands run. A function is
  named by the dotted path the call is written with. Python evaluates the function
  expression first, then the arguments from left to right, then makes the call; an
  assignment evaluates its right-hand side before it binds its targets. \<open>Store x src\<close>
  records that \<open>x\<close> was bound to the value of the expression \<open>src\<close>.
\<close>

datatype event =
    Load string
  | Store string string
  | Invoke string
  | Returned string
  | Command "string list"

fun dotted :: "expr \<Rightarrow> string" where
  "dotted (EName x) = x"
| "dotted (EAttr e a) = dotted e @ ''.'' @ a"
| "dotted (ECall f args) = dotted f @ ''()''"
| "dotted (ESubscript e i) = dotted e @ ''[]''"
| "dotted _ = ''?''"

fun eval_events :: "expr \<Rightarrow> event list" where
  "eval_events (EName x) = [Load x]"
| "eval_events (EConst c) = []"
| "eval_events (EStr s) = []"
| "eval_events (EAttr e a) = eval_events e"
| "eval_events (ESubscript e i) = eval_events e @ eval_events i"
| "eval_events ESlice = []"
| "eval_events (ECall f args) =
     eval_events f @ concat (map eval_events args) @ [Invoke (dotted f), Returned (dotted f)]"
| "eval_events (EKeyword k e) = eval_events e"
| "eval_events (ETuple es) = concat (map eval_events es)"
| "eval_events (EList es) = concat (map eval_events es)"
| "eval_events (EBinOp a f b) = eval_events a @ eval_events b"
| "eval_events (EUnaryOp f a) = eval_events a"
| "eval_events (ECompare a f b) = eval_events a @ eval_events b"
| "eval_events (EJoinedStr es) = concat (map eval_events es)"
| "eval_events (EFormatted e f) = eval_events e"

fun store_events :: "string \<Rightarrow> expr \<Rightarrow> event list" where
  "store_events src (EName x) = [Store x src]"
| "store_events src (ETuple ts) = concat (map (store_events src) ts)"
| "store_events src (EList ts) = concat (map (store_events src) ts)"
| "store_events src (ESubscript e i) = eval_events e @ eval_events i"
| "store_events src (EAttr e a) = eval_events e"
| "store_events src _ = []"

text \<open>
  The events of a simple statement. What a loop, a branch or a definition does depends
  on the values at run time, so a compound statement has no fixed sequence of events.
\<close>

fun stmt_events :: "stmt \<Rightarrow> event list option" where
  "stmt_events (SExpr e) = Some (eval_events e)"
| "stmt_events (SAssign target v) = Some (eval_events v @ store_events (dotted v) target)"
| "stmt_events (SImport m a) = Some [Store a m]"
| "stmt_events (SImportFrom m ns) = Some (map (\<lambda>n. Store n (m @ ''.'' @ n)) ns)"
| "stmt_events (SShell argv) = Some [Command argv]"
| "stmt_events _ = None"

fun run_events :: "stmt list \<Rightarrow> event list option" where
  "run_events [] = Some []"
| "run_events (s # ss) =
     (case stmt_events s of
        None \<Rightarrow> None
      | Some es \<Rightarrow> (case run_events ss of None \<Rightarrow> None | Some rest \<Rightarrow> Some (es @ rest)))"

text \<open>
  A run executes the cells from the first to the last. Any step may raise, and nothing
  catches the error, so the run stops there: the runs of a notebook are the prefixes of
  its sequence of events.
\<close>

definition notebook_events :: "notebook \<Rightarrow> event list option" where
  "notebook_events nb = run_events (concat nb)"

definition runs :: "notebook \<Rightarrow> event list list" where
  "runs nb = (case notebook_events nb of None \<Rightarrow> [] | Some tr \<Rightarrow> prefixes tr)"

text \<open>\<open>precedes a b tr\<close>: the sequence has an \<open>a\<close> before its first \<open>b\<close>, or no \<open>b\<close>.\<close>

fun precedes :: "'a \<Rightarrow> 'a \<Rightarrow> 'a list \<Rightarrow> bool" where
  "precedes a b [] = True"
| "precedes a b (x # xs) = (if x = a then True else if x = b then False else precedes a b xs)"

section \<open>Files written\<close>

text \<open>All calls of an expression: the function expression and the arguments.\<close>

fun calls_expr :: "expr \<Rightarrow> (expr \<times> expr list) list" where
  "calls_expr (ECall f args) = calls_expr f @ concat (map calls_expr args) @ [(f, args)]"
| "calls_expr (EAttr e a) = calls_expr e"
| "calls_expr (ESubscript e i) = calls_expr e @ calls_expr i"
| "calls_expr (EKeyword k e) = calls_expr e"
| "calls_expr (ETuple es) = concat (map calls_expr es)"
| "calls_expr (EList es) = concat (map calls_expr es)"
| "calls_expr (EBinOp a f b) = calls_expr a @ calls_expr b"
| "calls_expr (EUnaryOp f a) = calls_expr a"
| "calls_expr (ECompare a f b) = calls_expr a @ calls_expr b"
| "calls_expr (EJoinedStr es) = concat (map calls_expr es)"
| "calls_expr (EFormatted e f) = calls_expr e"
| "calls_expr _ = []"

fun calls_stmt :: "stmt \<Rightarrow> (expr \<times> expr list) list" where
  "calls_stmt (SExpr e) = calls_expr e"
| "calls_stmt (SAssign target v) = calls_expr v @ calls_expr target"
| "calls_stmt (SReturn e) = calls_expr e"
| "calls_stmt (SRaise e) = calls_expr e"
| "calls_stmt (SAssert e) = calls_expr e"
| "calls_stmt (SFunctionDef f ps body) = concat (map calls_stmt body)"
| "calls_stmt (SClassDef c bases body) =
     concat (map calls_expr bases) @ concat (map calls_stmt body)"
| "calls_stmt (SFor target iter body) = calls_expr iter @ concat (map calls_stmt body)"
| "calls_stmt (SWhile cond body) = calls_expr cond @ concat (map calls_stmt body)"
| "calls_stmt (SIf cond body orelse) =
     calls_expr cond @ concat (map calls_stmt body) @ concat (map calls_stmt orelse)"
| "calls_stmt (STry body handlers final) =
     concat (map calls_stmt body) @ concat (map calls_stmt handlers)
     @ concat (map calls_stmt final)"
| "calls_stmt (SWith item body) = calls_expr item @ concat (map calls_stmt body)"
| "calls_stmt _ = []"

definition notebook_calls :: "notebook \<Rightarrow> (expr \<times> expr list) list" where
  "notebook_calls nb = concat (map calls_stmt (concat nb))"

definition called_functions :: "notebook \<Rightarrow> string list" where
  "called_functions nb = remdups (map (\<lambda>(f, args). dotted f) (notebook_calls nb))"

text \<open>
  The functions of Python, pandas, numpy, matplotlib and torch that write the file whose
  path they are given. What a library writes on its own account, as
  \<^verbatim>\<open>abagen.fetch_microarray\<close> does under its \<^verbatim>\<open>data_dir\<close>, is the library's business.
\<close>

definition file_writers :: "string list" where
  "file_writers =
     [''open'', ''write'', ''to_csv'', ''to_pickle'', ''to_json'', ''to_excel'', ''to_hdf'',
      ''save'', ''savez'', ''savetxt'', ''tofile'', ''dump'', ''savefig'', ''imsave'']"

fun function_name :: "expr \<Rightarrow> string" where
  "function_name (EName x) = x"
| "function_name (EAttr e a) = a"
| "function_name _ = []"

fun call_writes :: "expr \<times> expr list \<Rightarrow> string list" where
  "call_writes (f, args) =
     (if function_name f \<in> set file_writers
      then (case args of EStr path # rest \<Rightarrow> [path] | _ \<Rightarrow> [dotted f])
      else [])"

text \<open>
  The shell commands: \<^verbatim>\<open>cp\<close> writes its last word, \<^verbatim>\<open>head\<close> and \<^verbatim>\<open>tail\<close> only read.
  Any other command is taken to write everything it names.
\<close>

fun shell_writes :: "string list \<Rightarrow> string list" where
  "shell_writes [] = []"
| "shell_writes (cmd # words) =
     (if cmd = ''cp'' then (if words = [] then [] else [last words])
      else if cmd = ''head'' \<or> cmd = ''tail'' then []
      else words)"

fun shell_stmt :: "stmt \<Rightarrow> string list list" where
  "shell_stmt (SShell argv) = [argv]"
| "shell_stmt (SFunctionDef f ps body) = concat (map shell_stmt body)"
| "shell_stmt (SClassDef c bases body) = concat (map shell_stmt body)"
| "shell_stmt (SFor target iter body) = concat (map shell_stmt body)"
| "shell_stmt (SWhile cond body) = concat (map shell_stmt body)"
| "shell_stmt (SIf cond body orelse) =
     concat (map shell_stmt body) @ concat (map shell_stmt orelse)"
| "shell_stmt (STry body handlers final) =
     concat (map shell_stmt body) @ concat (map shell_stmt handlers)
     @ concat (map shell_stmt final)"
| "shell_stmt (SWith item body) = concat (map shell_stmt body)"
| "shell_stmt _ = []"

definition shell_commands :: "notebook \<Rightarrow> string list list" where
  "shell_commands nb = concat (map shell_stmt (concat nb))"

definition files_written :: "notebook \<Rightarrow> string list" where
  "files_written nb =
     concat (map call_writes (notebook_calls nb)) @ concat (map shell_writes (shell_commands nb))"

section \<open>The functions and classes of the PyTorch notebook\<close>

subsection \<open>The curve and its loss (lines 353 to 356 and 378 to 380)\<close>

text \<open>
  \<^verbatim>\<open>curve\<close> and \<^verbatim>\<open>loss\<close> on a scalar \<open>t\<close>. The tensor arithmetic of the library is
  taken as the arithmetic of the real numbers: rounding to 32-bit floats is not modelled.
\<close>

definition curve :: "real \<Rightarrow> real \<times> real" where
  "curve t =
     (let x = sin t - 0.5;
          y = cos t * 2 + cos (2 * t) + 0.75
      in (x, y))"

definition loss :: "real \<Rightarrow> real" where
  "loss t = (case curve t of (x, y) \<Rightarrow> sqrt ((x - 0)\<^sup>2 + (y - 0)\<^sup>2))"

subsection \<open>Functions of the notebook as mathematics\<close>

text \<open>
  A function of a notebook has a mathematical specification of its own when its body
  is arithmetic alone: run on any real argument, it returns a number, or a tuple of
  numbers, that is computed by \<open>+\<close>, \<open>-\<close>, \<open>*\<close>, powers, the elementary functions
  \<^verbatim>\<open>torch.sin\<close>, \<^verbatim>\<open>torch.cos\<close> and \<^verbatim>\<open>torch.sqrt\<close>, and functions of the notebook that
  are such functions themselves. The evaluator below runs the syntax of a definition on
  real numbers; whatever it does not know (a call of any other library function, an
  attribute, a loop, a missing \<^verbatim>\<open>return\<close>) has no value. The square root of a negative
  number is not a number and has no value either.
\<close>

datatype val = VNum real | VTuple "val list"

type_synonym fn = "val list \<Rightarrow> val option"

text \<open>A decimal digit is worth its position in the string of the ten digits.\<close>

definition digit :: "char \<Rightarrow> nat option" where
  "digit c =
     (let before = takeWhile (\<lambda>d. d \<noteq> c) ''0123456789''
      in if length before < 10 then Some (length before) else None)"

fun digits :: "nat \<Rightarrow> string \<Rightarrow> nat option" where
  "digits acc [] = Some acc"
| "digits acc (c # cs) =
     (case digit c of None \<Rightarrow> None | Some d \<Rightarrow> digits (10 * acc + d) cs)"

text \<open>A literal of the form \<^verbatim>\<open>12\<close> or \<^verbatim>\<open>0.75\<close>.\<close>

definition number :: "string \<Rightarrow> real option" where
  "number s =
     (let whole = takeWhile (\<lambda>c. c \<noteq> CHR ''.'') s;
          frac = drop 1 (dropWhile (\<lambda>c. c \<noteq> CHR ''.'') s)
      in if whole = [] then None
         else (case (digits 0 whole, digits 0 frac) of
                 (Some a, Some b) \<Rightarrow> Some (real a + real b / 10 ^ length frac)
               | _ \<Rightarrow> None))"

fun binop :: "string \<Rightarrow> val \<Rightarrow> val \<Rightarrow> val option" where
  "binop f (VNum a) (VNum b) =
     (if f = ''+'' then Some (VNum (a + b))
      else if f = ''-'' then Some (VNum (a - b))
      else if f = ''*'' then Some (VNum (a * b))
      else if f = ''**'' \<and> 0 \<le> b \<and> b = of_int \<lfloor>b\<rfloor> then Some (VNum (a ^ nat \<lfloor>b\<rfloor>))
      else None)"
| "binop f u v = None"

definition unary :: "(real \<Rightarrow> real option) \<Rightarrow> fn" where
  "unary g args = (case args of [VNum a] \<Rightarrow> map_option VNum (g a) | _ \<Rightarrow> None)"

definition torch_math :: "(string \<times> fn) list" where
  "torch_math =
     [(''torch.sin'', unary (\<lambda>a. Some (sin a))),
      (''torch.cos'', unary (\<lambda>a. Some (cos a))),
      (''torch.sqrt'', unary (\<lambda>a. if 0 \<le> a then Some (sqrt a) else None))]"

fun path :: "expr \<Rightarrow> string" where
  "path (EName x) = x"
| "path (EAttr e a) = path e @ ''.'' @ a"
| "path e = []"

fun eval_math :: "(string \<times> fn) list \<Rightarrow> (string \<times> val) list \<Rightarrow> expr \<Rightarrow> val option" where
  "eval_math fs env (EName x) = map_of env x"
| "eval_math fs env (EConst c) = map_option VNum (number c)"
| "eval_math fs env (EBinOp a f b) =
     (case eval_math fs env a of
        None \<Rightarrow> None
      | Some u \<Rightarrow> (case eval_math fs env b of None \<Rightarrow> None | Some v \<Rightarrow> binop f u v))"
| "eval_math fs env (ETuple es) = map_option VTuple (those (map (eval_math fs env) es))"
| "eval_math fs env (ECall f args) =
     (case map_of fs (path f) of
        None \<Rightarrow> None
      | Some g \<Rightarrow>
          (case those (map (eval_math fs env) args) of None \<Rightarrow> None | Some vs \<Rightarrow> g vs))"
| "eval_math fs env e = None"

fun bind_target :: "expr \<Rightarrow> val \<Rightarrow> (string \<times> val) list \<Rightarrow> (string \<times> val) list option" where
  "bind_target (EName x) v env = Some ((x, v) # env)"
| "bind_target (ETuple [EName x, EName y]) (VTuple [u, v]) env = Some ((y, v) # (x, u) # env)"
| "bind_target target v env = None"

fun exec_body :: "(string \<times> fn) list \<Rightarrow> (string \<times> val) list \<Rightarrow> stmt list \<Rightarrow> val option" where
  "exec_body fs env [] = None"
| "exec_body fs env (SReturn e # ss) = eval_math fs env e"
| "exec_body fs env (SAssign target e # ss) =
     (case eval_math fs env e of
        None \<Rightarrow> None
      | Some v \<Rightarrow>
          (case bind_target target v env of
             None \<Rightarrow> None
           | Some env' \<Rightarrow> exec_body fs env' ss))"
| "exec_body fs env (s # ss) = None"

fun call_def :: "(string \<times> fn) list \<Rightarrow> stmt \<Rightarrow> fn" where
  "call_def fs (SFunctionDef f ps body) args =
     (if length ps = length args then exec_body fs (zip ps args) body else None)"
| "call_def fs s args = None"

text \<open>
  The functions a notebook defines at its top level, in order; a body may call the
  functions defined before it.
\<close>

fun define_functions :: "(string \<times> fn) list \<Rightarrow> stmt list \<Rightarrow> (string \<times> fn) list" where
  "define_functions fs [] = []"
| "define_functions fs (SFunctionDef f ps body # ss) =
     (f, call_def fs (SFunctionDef f ps body))
     # define_functions ((f, call_def fs (SFunctionDef f ps body)) # fs) ss"
| "define_functions fs (s # ss) = define_functions fs ss"

definition notebook_functions :: "notebook \<Rightarrow> (string \<times> fn) list" where
  "notebook_functions nb = define_functions torch_math (concat nb)"

definition notebook_function :: "notebook \<Rightarrow> string \<Rightarrow> fn" where
  "notebook_function nb f args =
     (case map_of (notebook_functions nb) f of None \<Rightarrow> None | Some g \<Rightarrow> g args)"

text \<open>\<open>specified g\<close>: the function has a value at every real argument.\<close>

definition specified :: "fn \<Rightarrow> bool" where
  "specified g = (\<forall>t. g [VNum t] \<noteq> None)"

definition no_specified_function :: "notebook \<Rightarrow> bool" where
  "no_specified_function nb = list_all (\<lambda>(f, g). \<not> specified g) (notebook_functions nb)"

subsection \<open>Tensors\<close>

text \<open>
  A tensor is a scalar or a sequence of tensors along its leading dimension. Indexing
  with an integer follows Python: an index from \<open>-n\<close> up to \<open>n - 1\<close> selects along the
  leading dimension, counting from the end when negative. The library converts the
  index to a signed 64-bit integer first and raises \<^verbatim>\<open>ValueError\<close> when it does not fit;
  an index that fits and selects nothing, and any index that fits into a scalar, raise
  \<^verbatim>\<open>IndexError\<close>. The leading dimension of a tensor is itself below \<open>2\<^sup>6\<^sup>3\<close>, so an index
  that selects an element always fits and the range may be tested first. \<^verbatim>\<open>len\<close> is the
  leading dimension and raises \<^verbatim>\<open>TypeError\<close> on a scalar.
\<close>

datatype 'a tensor = Scalar 'a | Tensor "'a tensor list"

datatype error = IndexError | ValueError | TypeError | RuntimeError

definition fits_int64 :: "int \<Rightarrow> bool" where
  "fits_int64 i = (- (2 ^ 63) \<le> i \<and> i < 2 ^ 63)"

fun tensor_len :: "'a tensor \<Rightarrow> error + nat" where
  "tensor_len (Scalar v) = Inl TypeError"
| "tensor_len (Tensor xs) = Inr (length xs)"

fun tensor_index :: "'a tensor \<Rightarrow> int \<Rightarrow> error + 'a tensor" where
  "tensor_index (Scalar v) i = (if fits_int64 i then Inl IndexError else Inl ValueError)"
| "tensor_index (Tensor xs) i =
     (let n = int (length xs) in
      if 0 \<le> i \<and> i < n then Inr (xs ! nat i)
      else if - n \<le> i \<and> i < 0 then Inr (xs ! nat (n + i))
      else if fits_int64 i then Inl IndexError
      else Inl ValueError)"

text \<open>
  \<^verbatim>\<open>Tensor.float()\<close> converts every element and keeps the shape; the conversion of one
  element is the parameter \<open>to_float\<close>.
\<close>

definition tensor_float :: "('a \<Rightarrow> 'b) \<Rightarrow> 'a tensor \<Rightarrow> 'b tensor" where
  "tensor_float to_float t = map_tensor to_float t"

subsection \<open>MNISTDataset (lines 544 to 551)\<close>

record ('a, 'b) MNISTDataset =
  images :: "'a tensor"
  labels :: "'b tensor"

definition MNISTDataset_init ::
  "('c \<Rightarrow> 'a) \<Rightarrow> 'c tensor \<Rightarrow> 'b tensor \<Rightarrow> ('a, 'b) MNISTDataset" where
  "MNISTDataset_init to_float imgs labs =
     \<lparr>images = tensor_float to_float imgs, labels = labs\<rparr>"

text \<open>The tuple is built from left to right: the image is indexed first.\<close>

definition MNISTDataset_getitem ::
  "('a, 'b) MNISTDataset \<Rightarrow> int \<Rightarrow> error + ('a tensor \<times> 'b tensor)" where
  "MNISTDataset_getitem self ii =
     (case tensor_index (images self) ii of
        Inl e \<Rightarrow> Inl e
      | Inr img \<Rightarrow>
          (case tensor_index (labels self) ii of
             Inl e \<Rightarrow> Inl e
           | Inr lab \<Rightarrow> Inr (img, lab)))"

definition MNISTDataset_len :: "('a, 'b) MNISTDataset \<Rightarrow> error + nat" where
  "MNISTDataset_len self = tensor_len (labels self)"

subsection \<open>NeuralNetwork (lines 648 to 664)\<close>

text \<open>
  A tensor of numbers has an element type and holds 32-bit floats when that type is
  \<^verbatim>\<open>float32\<close>. A float is a finite number, an infinity or NaN. How the library adds and
  multiplies floats (rounding, overflow to an infinity, the order of a sum) is left
  open: the two operations are parameters of the model, and what is proved holds for
  every choice of them.
\<close>

datatype f32 = Finite real | PosInf | NegInf | NaN

datatype dtype = Float32 | Float64 | Int64 | UInt8

record 'a typed =
  dtype :: dtype
  elems :: "'a"

record float_ops =
  fadd :: "f32 \<Rightarrow> f32 \<Rightarrow> f32"
  fmul :: "f32 \<Rightarrow> f32 \<Rightarrow> f32"

text \<open>
  \<^verbatim>\<open>nn.Linear(n_in, n_out)\<close> holds a \<^verbatim>\<open>float32\<close> weight matrix of \<open>n_out\<close> rows of length
  \<open>n_in\<close> and a bias of length \<open>n_out\<close>. Applied to a batch of rows it raises
  \<^verbatim>\<open>RuntimeError\<close> when the batch is not \<^verbatim>\<open>float32\<close> or a row has not length \<open>n_in\<close>, and
  otherwise maps each row \<open>x\<close> to \<open>W x + b\<close>. \<^verbatim>\<open>nn.ReLU()\<close> replaces every component \<open>v\<close>
  by the larger of 0 and \<open>v\<close>, and leaves NaN as it is. \<^verbatim>\<open>nn.Sequential\<close> applies its
  layers in order. \<^verbatim>\<open>nn.Flatten()\<close> keeps the batch dimension and joins the others.
\<close>

datatype layer = Linear nat nat "f32 list list" "f32 list" | ReLU

fun relu :: "f32 \<Rightarrow> f32" where
  "relu (Finite r) = Finite (max 0 r)"
| "relu PosInf = PosInf"
| "relu NegInf = Finite 0"
| "relu NaN = NaN"

definition dot :: "float_ops \<Rightarrow> f32 list \<Rightarrow> f32 list \<Rightarrow> f32" where
  "dot ops u v = foldl (fadd ops) (Finite 0) (map2 (fmul ops) u v)"

fun layer_forward ::
  "float_ops \<Rightarrow> layer \<Rightarrow> f32 list list typed \<Rightarrow> error + f32 list list typed" where
  "layer_forward ops (Linear n_in n_out W b) x =
     (if dtype x \<noteq> Float32 then Inl RuntimeError
      else if \<not> list_all (\<lambda>row. length row = n_in) (elems x) then Inl RuntimeError
      else Inr \<lparr>dtype = Float32,
                elems = map (\<lambda>row. map2 (\<lambda>w c. fadd ops (dot ops w row) c) W b) (elems x)\<rparr>)"
| "layer_forward ops ReLU x = Inr \<lparr>dtype = dtype x, elems = map (map relu) (elems x)\<rparr>"

fun Sequential ::
  "float_ops \<Rightarrow> layer list \<Rightarrow> f32 list list typed \<Rightarrow> error + f32 list list typed" where
  "Sequential ops [] x = Inr x"
| "Sequential ops (l # ls) x =
     (case layer_forward ops l x of Inl e \<Rightarrow> Inl e | Inr y \<Rightarrow> Sequential ops ls y)"

definition Flatten :: "f32 list list list typed \<Rightarrow> f32 list list typed" where
  "Flatten x = \<lparr>dtype = dtype x, elems = map concat (elems x)\<rparr>"

record NeuralNetwork =
  linear_relu_stack :: "layer list"

text \<open>
  The constructor builds the stack; the library draws the initial weights and biases at
  random, so they are arguments here. \<open>linear_params n_in n_out p\<close> says that \<open>p\<close> has
  the shape that \<^verbatim>\<open>nn.Linear(n_in, n_out)\<close> creates and that training keeps.
\<close>

type_synonym params = "f32 list list \<times> f32 list"

definition linear_params :: "nat \<Rightarrow> nat \<Rightarrow> params \<Rightarrow> bool" where
  "linear_params n_in n_out p =
     (length (fst p) = n_out \<and> list_all (\<lambda>w. length w = n_in) (fst p)
      \<and> length (snd p) = n_out)"

definition NeuralNetwork_init :: "params \<Rightarrow> params \<Rightarrow> params \<Rightarrow> NeuralNetwork" where
  "NeuralNetwork_init p1 p2 p3 =
     \<lparr>linear_relu_stack =
        [Linear (28 * 28) 512 (fst p1) (snd p1),
         ReLU,
         Linear 512 512 (fst p2) (snd p2),
         ReLU,
         Linear 512 10 (fst p3) (snd p3),
         ReLU]\<rparr>"

definition NeuralNetwork_forward ::
  "float_ops \<Rightarrow> NeuralNetwork \<Rightarrow> f32 list list list typed \<Rightarrow> error + f32 list list typed" where
  "NeuralNetwork_forward ops self x =
     (let x = Flatten x;
          logits = Sequential ops (linear_relu_stack self) x
      in logits)"

text \<open>The shape \<open>[N, 28, 28]\<close> of a batch of images.\<close>

definition image_batch :: "nat \<Rightarrow> f32 list list list typed \<Rightarrow> bool" where
  "image_batch N x =
     (length (elems x) = N
      \<and> list_all (\<lambda>img. length img = 28 \<and> list_all (\<lambda>row. length row = 28) img) (elems x))"

text \<open>The shape \<open>[N, 10]\<close> of the result.\<close>

definition logits_shape :: "nat \<Rightarrow> f32 list list typed \<Rightarrow> bool" where
  "logits_shape N y = (length (elems y) = N \<and> list_all (\<lambda>row. length row = 10) (elems y))"

fun nonnegative :: "f32 \<Rightarrow> bool" where
  "nonnegative (Finite r) = (0 \<le> r)"
| "nonnegative PosInf = True"
| "nonnegative NegInf = False"
| "nonnegative NaN = False"

definition all_nonnegative :: "f32 list list typed \<Rightarrow> bool" where
  "all_nonnegative y = list_all (list_all nonnegative) (elems y)"

definition nonnegative_or_nan :: "f32 list list typed \<Rightarrow> bool" where
  "nonnegative_or_nan y = list_all (list_all (\<lambda>v. v = NaN \<or> nonnegative v)) (elems y)"

text \<open>
  One choice of the operations: the arithmetic of the real numbers on finite floats,
  without rounding, and the rules of IEEE 754 for NaN and the infinities.
\<close>

fun exact_add :: "f32 \<Rightarrow> f32 \<Rightarrow> f32" where
  "exact_add (Finite a) (Finite b) = Finite (a + b)"
| "exact_add NaN v = NaN"
| "exact_add u NaN = NaN"
| "exact_add PosInf NegInf = NaN"
| "exact_add NegInf PosInf = NaN"
| "exact_add PosInf v = PosInf"
| "exact_add u PosInf = PosInf"
| "exact_add NegInf v = NegInf"
| "exact_add u NegInf = NegInf"

definition scale_inf :: "bool \<Rightarrow> real \<Rightarrow> f32" where
  "scale_inf positive r =
     (if r = 0 then NaN else if (0 < r) = positive then PosInf else NegInf)"

fun exact_mul :: "f32 \<Rightarrow> f32 \<Rightarrow> f32" where
  "exact_mul (Finite a) (Finite b) = Finite (a * b)"
| "exact_mul NaN v = NaN"
| "exact_mul u NaN = NaN"
| "exact_mul PosInf (Finite b) = scale_inf True b"
| "exact_mul (Finite a) PosInf = scale_inf True a"
| "exact_mul NegInf (Finite b) = scale_inf False b"
| "exact_mul (Finite a) NegInf = scale_inf False a"
| "exact_mul PosInf PosInf = PosInf"
| "exact_mul NegInf NegInf = PosInf"
| "exact_mul PosInf NegInf = NegInf"
| "exact_mul NegInf PosInf = NegInf"

definition exact_ops :: float_ops where
  "exact_ops = \<lparr>fadd = exact_add, fmul = exact_mul\<rparr>"

text \<open>Parameters of the right shape: every weight \<open>w\<close>, every bias \<open>c\<close>.\<close>

definition constant_params :: "nat \<Rightarrow> nat \<Rightarrow> real \<Rightarrow> real \<Rightarrow> params" where
  "constant_params n_in n_out w c =
     (replicate n_out (replicate n_in (Finite w)), replicate n_out (Finite c))"

text \<open>
  A network whose first two layers average their inputs and whose last layer takes
  the negative of the average.
\<close>

definition averaging_network :: NeuralNetwork where
  "averaging_network =
     NeuralNetwork_init (constant_params (28 * 28) 512 (1 / 784) 0)
       (constant_params 512 512 (1 / 512) 0) (constant_params 512 10 (- 1 / 512) 0)"

text \<open>
  What C9 says of one batch: \<^verbatim>\<open>forward\<close> returns a tensor of shape \<open>[N, 10]\<close> without a
  negative component.
\<close>

definition returns_nonnegative_logits ::
  "float_ops \<Rightarrow> NeuralNetwork \<Rightarrow> nat \<Rightarrow> f32 list list list typed \<Rightarrow> bool" where
  "returns_nonnegative_logits ops self N x =
     (case NeuralNetwork_forward ops self x of
        Inl e \<Rightarrow> False
      | Inr y \<Rightarrow> logits_shape N y \<and> all_nonnegative y)"

text \<open>A batch of \<open>N\<close> images with every pixel \<open>v\<close>.\<close>

definition constant_batch :: "dtype \<Rightarrow> nat \<Rightarrow> f32 \<Rightarrow> f32 list list list typed" where
  "constant_batch d N v = \<lparr>dtype = d, elems = replicate N (replicate 28 (replicate 28 v))\<rparr>"

text \<open>The events of a complete run of the abagen notebook.\<close>

definition abagen_events :: "event list" where
  "abagen_events = (case notebook_events abagen_notebook of None \<Rightarrow> [] | Some tr \<Rightarrow> tr)"

section \<open>Original functions and classes\<close>

lemma number_literals:
  "number ''0.5'' = Some (1 / 2)" "number ''2'' = Some 2"
  "number ''0.75'' = Some (3 / 4)" "number ''0'' = Some 0"
  by (simp_all add: number_def digit_def)

lemma torch_math_lookup:
  "map_of torch_math ''torch.sin'' = Some (unary (\<lambda>a. Some (sin a)))"
  "map_of torch_math ''torch.cos'' = Some (unary (\<lambda>a. Some (cos a)))"
  "map_of torch_math ''torch.sqrt'' = Some (unary (\<lambda>a. if 0 \<le> a then Some (sqrt a) else None))"
  by (simp_all add: torch_math_def)

lemma call_curve:
  "call_def torch_math curve_src [VNum t]
     = Some (VTuple [VNum (sin t - 1 / 2), VNum (cos t * 2 + cos (2 * t) + 3 / 4)])"
  by (simp add: curve_src_def call_method_def torch_math_lookup unary_def number_literals)

lemma call_loss:
  "call_def ((''curve'', call_def torch_math curve_src) # torch_math) loss_src [VNum t]
     = Some (VNum (sqrt ((sin t - 1 / 2 - 0)\<^sup>2 + (cos t * 2 + cos (2 * t) + 3 / 4 - 0)\<^sup>2)))"
  by (simp add: loss_src_def call_method_def call_curve torch_math_lookup unary_def
      number_literals)

lemma torch_functions:
  "notebook_functions torch_notebook =
     [(''curve'', call_def torch_math curve_src),
      (''loss'', call_def ((''curve'', call_def torch_math curve_src) # torch_math) loss_src)]"
  apply (simp add: notebook_functions_def torch_notebook_def plot_axes_def subplots_def
        sgd_loop_def shape_loop_def show_loop_def training_loop_def evaluation_loop_def
        MNISTDataset_src_def NeuralNetwork_src_def del: call_def.simps)
  apply (simp add: curve_src_def loss_src_def del: call_def.simps)
  done

lemma abagen_functions: "notebook_functions abagen_notebook = []"
  by (simp add: notebook_functions_def abagen_notebook_def)

text \<open>
  C1, as stated: no function defined in the notebooks computes a result with its own
  mathematical specification. This fails for the PyTorch notebook: its function
  \<^verbatim>\<open>curve\<close> is arithmetic alone and has a value at every real argument.
\<close>

theorem no_specified_function_counterexample:
  "\<not> no_specified_function torch_notebook"
  by (simp add: no_specified_function_def torch_functions specified_def call_curve)

text \<open>
  C1, amended: the repository does contain original logic that is specified
  independently of the libraries. The abagen notebook defines no function. The PyTorch
  notebook defines the functions \<^verbatim>\<open>curve\<close> and \<^verbatim>\<open>loss\<close> and the five methods of its two
  classes. Run on any real \<open>t\<close>, the definition of \<^verbatim>\<open>curve\<close> returns the point
  \<open>(sin t - 1/2, 2 cos t + cos 2t + 3/4)\<close> and the definition of \<^verbatim>\<open>loss\<close> returns the
  distance of that point from the origin.
\<close>

theorem original_functions:
  "function_defs abagen_notebook = []
   \<and> function_defs torch_notebook =
       [''curve'', ''loss'',
        ''MNISTDataset.__init__'', ''MNISTDataset.__getitem__'', ''MNISTDataset.__len__'',
        ''NeuralNetwork.__init__'', ''NeuralNetwork.forward'']
   \<and> map fst (notebook_functions abagen_notebook) = []
   \<and> map fst (notebook_functions torch_notebook) = [''curve'', ''loss'']
   \<and> notebook_function torch_notebook ''curve'' [VNum t]
       = Some (VTuple [VNum (fst (curve t)), VNum (snd (curve t))])
   \<and> notebook_function torch_notebook ''loss'' [VNum t] = Some (VNum (loss t))
   \<and> curve t = (sin t - 1 / 2, 2 * cos t + cos (2 * t) + 3 / 4)
   \<and> loss t = sqrt ((fst (curve t))\<^sup>2 + (snd (curve t))\<^sup>2)"
proof -
  have "function_defs abagen_notebook = []" by code_simp
  moreover have "function_defs torch_notebook =
       [''curve'', ''loss'',
        ''MNISTDataset.__init__'', ''MNISTDataset.__getitem__'', ''MNISTDataset.__len__'',
        ''NeuralNetwork.__init__'', ''NeuralNetwork.forward'']" by code_simp
  moreover have "map fst (notebook_functions abagen_notebook) = []"
    by (simp add: abagen_functions)
  moreover have "map fst (notebook_functions torch_notebook) = [''curve'', ''loss'']"
    by (simp add: torch_functions)
  moreover have "notebook_function torch_notebook ''curve'' [VNum t]
       = Some (VTuple [VNum (fst (curve t)), VNum (snd (curve t))])"
    by (simp add: notebook_function_def torch_functions call_curve curve_def Let_def)
  moreover have "notebook_function torch_notebook ''loss'' [VNum t] = Some (VNum (loss t))"
    by (simp add: notebook_function_def torch_functions call_loss loss_def curve_def Let_def)
  moreover have "curve t = (sin t - 1 / 2, 2 * cos t + cos (2 * t) + 3 / 4)"
    by (simp add: curve_def Let_def)
  moreover have "loss t = sqrt ((fst (curve t))\<^sup>2 + (snd (curve t))\<^sup>2)"
    by (simp add: loss_def split: prod.splits)
  ultimately show ?thesis by simp
qed



section \<open>Control flow\<close>



section \<open>Errors\<close>

lemma no_error_handling:
  "error_handling abagen_notebook = []" "error_handling torch_notebook = []"
  by code_simp+

text \<open>
  The library converts the index before it looks at the tensor. For a tensor of a
  length that can exist, the model agrees: an index that does not fit 64 bits raises
  \<^verbatim>\<open>ValueError\<close>.
\<close>

lemma tensor_index_overflow:
  "int (length xs) \<le> 2 ^ 63 \<Longrightarrow> \<not> fits_int64 i \<Longrightarrow> tensor_index (Tensor xs) i = Inl ValueError"
  by (auto simp: fits_int64_def Let_def)

text \<open>
  C4: no statement of either notebook catches, raises or checks for an error, so an
  error raised by a library operation ends the run as it is. In particular
  \<^verbatim>\<open>MNISTDataset.__getitem__\<close> does not look at \<open>ii\<close>: when indexing the images raises
  \<open>e\<close>, it raises \<open>e\<close>; when indexing the images succeeds and indexing the labels raises
  \<open>e\<close>, it raises \<open>e\<close>; it raises no error that neither indexing raised; and for every
  \<open>ii\<close> out of the range of the images it raises the error of the tensor, which is
  \<^verbatim>\<open>IndexError\<close> when \<open>ii\<close> fits 64 bits and \<^verbatim>\<open>ValueError\<close> when it does not.
\<close>

theorem errors_propagate:
  "error_handling abagen_notebook = [] \<and> error_handling torch_notebook = []
   \<and> (tensor_index (images self) ii = Inl e \<longrightarrow> MNISTDataset_getitem self ii = Inl e)
   \<and> (tensor_index (images self2) i2 = Inr img \<and> tensor_index (labels self2) i2 = Inl e2
        \<longrightarrow> MNISTDataset_getitem self2 i2 = Inl e2)
   \<and> (MNISTDataset_getitem self ii = Inl e
        \<longrightarrow> tensor_index (images self) ii = Inl e \<or> tensor_index (labels self) ii = Inl e)
   \<and> (images self = Tensor xs \<and> (ii < - int (length xs) \<or> int (length xs) \<le> ii)
        \<longrightarrow> tensor_index (images self) ii
              = Inl (if fits_int64 ii then IndexError else ValueError)
          \<and> MNISTDataset_getitem self ii
              = Inl (if fits_int64 ii then IndexError else ValueError))"
  using no_error_handling
  by (auto simp: MNISTDataset_getitem_def Let_def split: sum.splits)

text \<open>
  C4 at concrete datasets. With two images and two labels, the indices 2 and -3 raise
  \<^verbatim>\<open>IndexError\<close> and the index \<open>2\<^sup>6\<^sup>3\<close> raises \<^verbatim>\<open>ValueError\<close>. With two images and one label,
  index 1 finds the image and raises the \<^verbatim>\<open>IndexError\<close> of the label.
\<close>

theorem errors_propagate_witness:
  "MNISTDataset_getitem \<lparr>images = Tensor [Scalar (1::nat), Scalar 2],
                          labels = Tensor [Scalar (7::int), Scalar 8]\<rparr> 2 = Inl IndexError
   \<and> MNISTDataset_getitem \<lparr>images = Tensor [Scalar (1::nat), Scalar 2],
                            labels = Tensor [Scalar (7::int), Scalar 8]\<rparr> (- 3)
       = Inl IndexError
   \<and> MNISTDataset_getitem \<lparr>images = Tensor [Scalar (1::nat), Scalar 2],
                            labels = Tensor [Scalar (7::int), Scalar 8]\<rparr> (2 ^ 63)
       = Inl ValueError
   \<and> tensor_index (images \<lparr>images = Tensor [Scalar (1::nat), Scalar 2],
                           labels = Tensor [Scalar (7::int)]\<rparr>) 1 = Inr (Scalar 2)
   \<and> tensor_index (labels \<lparr>images = Tensor [Scalar (1::nat), Scalar 2],
                           labels = Tensor [Scalar (7::int)]\<rparr>) 1 = Inl IndexError
   \<and> MNISTDataset_getitem \<lparr>images = Tensor [Scalar (1::nat), Scalar 2],
                            labels = Tensor [Scalar (7::int)]\<rparr> 1 = Inl IndexError"
proof -
  let ?A = "\<lparr>images = Tensor [Scalar (1::nat), Scalar 2],
             labels = Tensor [Scalar (7::int), Scalar 8]\<rparr>"
  let ?B = "\<lparr>images = Tensor [Scalar (1::nat), Scalar 2], labels = Tensor [Scalar (7::int)]\<rparr>"
  note inst = errors_propagate [where self = ?A and xs = "[Scalar 1, Scalar 2]"
      and ?self2.0 = ?B and ?i2.0 = 1 and img = "Scalar 2" and ?e2.0 = IndexError]
  have a: "MNISTDataset_getitem ?A 2 = Inl IndexError"
    using inst [where ii = 2 and e = IndexError] by (simp add: fits_int64_def)
  have b: "MNISTDataset_getitem ?A (- 3) = Inl IndexError"
    using inst [where ii = "- 3" and e = IndexError] by (simp add: fits_int64_def)
  have c: "MNISTDataset_getitem ?A (2 ^ 63) = Inl ValueError"
    using inst [where ii = "2 ^ 63" and e = ValueError] by (simp add: fits_int64_def)
  have d: "tensor_index (images ?B) 1 = Inr (Scalar 2)"
    "tensor_index (labels ?B) 1 = Inl IndexError"
    by (simp_all add: fits_int64_def)
  have "MNISTDataset_getitem ?B 1 = Inl IndexError"
    using inst [where ii = 2 and e = IndexError] d by simp
  with a b c d show ?thesis by simp
qed

section \<open>The order of a run of the abagen notebook\<close>

lemma precedes_nth:
  "precedes a b xs \<Longrightarrow> a \<noteq> b \<Longrightarrow> j < length xs \<Longrightarrow> xs ! j = b \<Longrightarrow> \<exists>i<j. xs ! i = a"
proof (induction xs arbitrary: j)
  case Nil
  then show ?case by simp
next
  case (Cons x xs)
  show ?case
  proof (cases "x = a")
    case True
    with Cons.prems have "j \<noteq> 0" by (cases j) auto
    with True show ?thesis by (intro exI [of _ 0]) simp
  next
    case False
    with Cons.prems obtain k where k: "j = Suc k" by (cases j) (auto split: if_splits)
    from False Cons.prems k have "precedes a b xs" "k < length xs" "xs ! k = b"
      by (auto split: if_splits)
    from Cons.IH [OF this(1) Cons.prems(2) this(2,3)] obtain i where "i < k" "xs ! i = a"
      by blast
    with k show ?thesis by (intro exI [of _ "Suc i"]) simp
  qed
qed

lemma precedes_run:
  assumes "precedes a b tr" and "a \<noteq> b" and "prefix r tr" and "j < length r" and "r ! j = b"
  shows "\<exists>i<j. r ! i = a"
proof -
  from assms(3) obtain zs where tr: "tr = r @ zs" by (auto simp: prefix_def)
  with assms(4,5) have "j < length tr" "tr ! j = b" by (simp_all add: nth_append)
  from precedes_nth [OF assms(1,2) this] obtain i where i: "i < j" "tr ! i = a" by blast
  with assms(4) tr have "r ! i = a" by (simp add: nth_append)
  with i show ?thesis by blast
qed

lemma abagen_has_events: "notebook_events abagen_notebook \<noteq> None"
  by code_simp

lemma abagen_runs: "r \<in> set (runs abagen_notebook) \<Longrightarrow> prefix r abagen_events"
  by (auto simp: runs_def abagen_events_def in_set_prefixes split: option.splits)

lemma complete_run: "abagen_events \<in> set (runs abagen_notebook)"
  using abagen_has_events
  by (auto simp: runs_def abagen_events_def in_set_prefixes split: option.splits)

lemma fetch_first:
  "precedes (Returned ''abagen.fetch_microarray'') (Invoke ''abagen.get_expression_data'')
     abagen_events"
  by code_simp

lemma expression_first:
  "precedes (Store ''expression'' ''abagen.get_expression_data()'')
     (Invoke ''expression.to_csv'') abagen_events"
  by code_simp

lemma expression_maxprobe_first:
  "precedes (Store ''expression_maxprobe'' ''abagen.get_expression_data()'')
     (Invoke ''expression_maxprobe.to_csv'') abagen_events"
  by code_simp

text \<open>
  C5: in every run of the abagen notebook, complete or stopped by an error, a call of
  \<^verbatim>\<open>abagen.get_expression_data\<close> comes after \<^verbatim>\<open>abagen.fetch_microarray\<close> has returned,
  and a call of \<^verbatim>\<open>to_csv\<close> on \<^verbatim>\<open>expression\<close> or \<^verbatim>\<open>expression_maxprobe\<close> comes after that
  variable was bound to the result of \<^verbatim>\<open>abagen.get_expression_data\<close>. The PyTorch notebook
  saves nothing.
\<close>

theorem abagen_run_order:
  "files_written torch_notebook = []
   \<and> (\<forall>r \<in> set (runs abagen_notebook). \<forall>j < length r.
        (r ! j = Invoke ''abagen.get_expression_data''
           \<longrightarrow> (\<exists>i<j. r ! i = Returned ''abagen.fetch_microarray''))
      \<and> (r ! j = Invoke ''expression.to_csv''
           \<longrightarrow> (\<exists>i<j. r ! i = Store ''expression'' ''abagen.get_expression_data()''))
      \<and> (r ! j = Invoke ''expression_maxprobe.to_csv''
           \<longrightarrow> (\<exists>i<j. r ! i =
                  Store ''expression_maxprobe'' ''abagen.get_expression_data()'')))"
proof -
  have "files_written torch_notebook = []" by code_simp
  moreover have "\<exists>i<j. r ! i = Returned ''abagen.fetch_microarray''"
    if "r \<in> set (runs abagen_notebook)" "j < length r"
      "r ! j = Invoke ''abagen.get_expression_data''" for r j
    using precedes_run [OF fetch_first _ abagen_runs [OF that(1)] that(2,3)] by simp
  moreover have "\<exists>i<j. r ! i = Store ''expression'' ''abagen.get_expression_data()''"
    if "r \<in> set (runs abagen_notebook)" "j < length r"
      "r ! j = Invoke ''expression.to_csv''" for r j
    using precedes_run [OF expression_first _ abagen_runs [OF that(1)] that(2,3)] by simp
  moreover have "\<exists>i<j. r ! i = Store ''expression_maxprobe'' ''abagen.get_expression_data()''"
    if "r \<in> set (runs abagen_notebook)" "j < length r"
      "r ! j = Invoke ''expression_maxprobe.to_csv''" for r j
    using precedes_run [OF expression_maxprobe_first _ abagen_runs [OF that(1)] that(2,3)]
    by simp
  ultimately show ?thesis by blast
qed

text \<open>
  C5 at the complete run: its events 13, 56 and 59 are the first call of
  \<^verbatim>\<open>abagen.get_expression_data\<close> and the two calls of \<^verbatim>\<open>to_csv\<close>.
\<close>

theorem abagen_run_order_witness:
  "abagen_events \<in> set (runs abagen_notebook) \<and> length abagen_events = 64
   \<and> abagen_events ! 13 = Invoke ''abagen.get_expression_data''
   \<and> (\<exists>i<13. abagen_events ! i = Returned ''abagen.fetch_microarray'')
   \<and> abagen_events ! 56 = Invoke ''expression.to_csv''
   \<and> (\<exists>i<56. abagen_events ! i = Store ''expression'' ''abagen.get_expression_data()'')
   \<and> abagen_events ! 59 = Invoke ''expression_maxprobe.to_csv''
   \<and> (\<exists>i<59. abagen_events ! i =
         Store ''expression_maxprobe'' ''abagen.get_expression_data()'')"
proof -
  have n: "length abagen_events = 64" by code_simp
  have e: "abagen_events ! 13 = Invoke ''abagen.get_expression_data''"
    "abagen_events ! 56 = Invoke ''expression.to_csv''"
    "abagen_events ! 59 = Invoke ''expression_maxprobe.to_csv''" by code_simp+
  have "\<forall>j < length abagen_events.
        (abagen_events ! j = Invoke ''abagen.get_expression_data''
           \<longrightarrow> (\<exists>i<j. abagen_events ! i = Returned ''abagen.fetch_microarray''))
      \<and> (abagen_events ! j = Invoke ''expression.to_csv''
           \<longrightarrow> (\<exists>i<j. abagen_events ! i =
                  Store ''expression'' ''abagen.get_expression_data()''))
      \<and> (abagen_events ! j = Invoke ''expression_maxprobe.to_csv''
           \<longrightarrow> (\<exists>i<j. abagen_events ! i =
                  Store ''expression_maxprobe'' ''abagen.get_expression_data()''))"
    using abagen_run_order complete_run by blast
  with n e complete_run show ?thesis by simp
qed

section \<open>Files written\<close>

text \<open>
  C6: the abagen notebook writes exactly three local files, the two CSV files through
  \<^verbatim>\<open>to_csv\<close> and the copy of the atlas table through \<^verbatim>\<open>cp\<close>; its other two shell commands
  only read a local file. The PyTorch notebook writes no file and runs no shell command.
  Every call either notebook makes is a call of one of the functions listed: functions
  of Python and of the libraries, methods of their objects, and the functions and classes
  of the notebook itself. A function is listed once, where it is called last.
\<close>

theorem notebook_files_written:
  "files_written abagen_notebook =
     [''Expression_AHBA_abagen_defaultparam.csv'', ''Expression_AHBA_abagen_maxprobe.csv'',
      ''./atlas-desikankilliany_copy.csv'']
   \<and> shell_commands abagen_notebook =
       [[''head'', atlas_csv], [''tail'', atlas_csv],
        [''cp'', atlas_csv, ''./atlas-desikankilliany_copy.csv'']]
   \<and> files_written torch_notebook = []
   \<and> shell_commands torch_notebook = []
   \<and> called_functions abagen_notebook =
       [''abagen.fetch_microarray'', ''abagen.fetch_desikan_killiany'',
        ''reporting.Report'', ''generator.gen_report'', ''abagen.get_expression_data'',
        ''Markdown'', ''display'', ''expression.to_csv'', ''expression_maxprobe.to_csv'']
   \<and> called_functions torch_notebook =
       [''torch.zeros'', ''np.zeros'', ''torch.mean'', ''u.detach'', ''u.detach().numpy'',
        ''type'', ''torch.sin'', ''torch.cos'', ''torch.sqrt'', ''torch.tensor'', ''range'',
        ''float'', ''dist.backward'', ''loss'', ''x0.detach'', ''x0.detach().numpy'',
        ''y0.detach'', ''y0.detach().numpy'', ''torch.linspace'', ''curve'', ''plt.plot'',
        ''torch.load'', ''images.float'', ''MNISTDataset'', ''DataLoader'', ''super'',
        ''super().__init__'', ''nn.Flatten'', ''nn.Linear'', ''nn.ReLU'', ''nn.Sequential'',
        ''self.flatten'', ''self.linear_relu_stack'', ''NeuralNetwork'',
        ''nn.CrossEntropyLoss'', ''model.parameters'', ''torch.optim.SGD'', ''enumerate'',
        ''loss_fn'', ''optimizer.zero_grad'', ''loss.backward'', ''optimizer.step'',
        ''loss.item'', ''len'', ''print'', ''plt.subplots'', ''axs.flatten'',
        ''np.random.rand'', ''zip'', ''ax.imshow'', ''model'', ''torch.argmax'', ''y.item'',
        ''label.item'', ''str'', ''ax.set_title'', ''ax.axis'']"
proof -
  have "files_written abagen_notebook =
     [''Expression_AHBA_abagen_defaultparam.csv'', ''Expression_AHBA_abagen_maxprobe.csv'',
      ''./atlas-desikankilliany_copy.csv'']" by code_simp
  moreover have "shell_commands abagen_notebook =
       [[''head'', atlas_csv], [''tail'', atlas_csv],
        [''cp'', atlas_csv, ''./atlas-desikankilliany_copy.csv'']]" by code_simp
  moreover have "files_written torch_notebook = []" by code_simp
  moreover have "shell_commands torch_notebook = []" by code_simp
  moreover have "called_functions abagen_notebook =
       [''abagen.fetch_microarray'', ''abagen.fetch_desikan_killiany'',
        ''reporting.Report'', ''generator.gen_report'', ''abagen.get_expression_data'',
        ''Markdown'', ''display'', ''expression.to_csv'', ''expression_maxprobe.to_csv'']" by code_simp
  moreover have "called_functions torch_notebook =
       [''torch.zeros'', ''np.zeros'', ''torch.mean'', ''u.detach'', ''u.detach().numpy'',
        ''type'', ''torch.sin'', ''torch.cos'', ''torch.sqrt'', ''torch.tensor'', ''range'',
        ''float'', ''dist.backward'', ''loss'', ''x0.detach'', ''x0.detach().numpy'',
        ''y0.detach'', ''y0.detach().numpy'', ''torch.linspace'', ''curve'', ''plt.plot'',
        ''torch.load'', ''images.float'', ''MNISTDataset'', ''DataLoader'', ''super'',
        ''super().__init__'', ''nn.Flatten'', ''nn.Linear'', ''nn.ReLU'', ''nn.Sequential'',
        ''self.flatten'', ''self.linear_relu_stack'', ''NeuralNetwork'',
        ''nn.CrossEntropyLoss'', ''model.parameters'', ''torch.optim.SGD'', ''enumerate'',
        ''loss_fn'', ''optimizer.zero_grad'', ''loss.backward'', ''optimizer.step'',
        ''loss.item'', ''len'', ''print'', ''plt.subplots'', ''axs.flatten'',
        ''np.random.rand'', ''zip'', ''ax.imshow'', ''model'', ''torch.argmax'', ''y.item'',
        ''label.item'', ''str'', ''ax.set_title'', ''ax.axis'']" by code_simp
  ultimately show ?thesis by simp
qed

section \<open>The dataset\<close>

lemma tensor_index_float:
  "tensor_index (tensor_float f t) i = map_sum id (tensor_float f) (tensor_index t i)"
proof (cases t)
  case (Scalar v)
  then show ?thesis by (simp add: tensor_float_def)
next
  case (Tensor xs)
  have "nat (int (length xs) + i) < length xs" if "- int (length xs) \<le> i" "i < 0"
    using that by linarith
  moreover have "nat i < length xs" if "0 \<le> i" "i < int (length xs)"
    using that by linarith
  ultimately show ?thesis using Tensor by (simp add: tensor_float_def Let_def)
qed

text \<open>
  C7: for images \<open>xs\<close> and labels \<open>ys\<close> of the same leading length, the length of the
  dataset is the length of the labels, the stored labels are the tensor passed in, and
  for \<open>0 \<le> ii < length ys\<close> item \<open>ii\<close> is image \<open>ii\<close> converted to float, paired with
  label \<open>ii\<close>.
\<close>

theorem MNISTDataset_items:
  assumes "length xs = length ys" and "0 \<le> ii" and "ii < int (length ys)"
  shows "MNISTDataset_len (MNISTDataset_init to_float (Tensor xs) (Tensor ys))
           = Inr (length ys)
       \<and> tensor_len (Tensor ys) = Inr (length ys)
       \<and> MNISTDataset_getitem (MNISTDataset_init to_float (Tensor xs) (Tensor ys)) ii
           = Inr (tensor_float to_float (xs ! nat ii), ys ! nat ii)
       \<and> labels (MNISTDataset_init to_float (Tensor xs) (Tensor ys)) = Tensor ys"
  using assms
  by (simp add: MNISTDataset_len_def MNISTDataset_init_def MNISTDataset_getitem_def
      tensor_index_float Let_def)

text \<open>C7 at two images of one pixel each, with the labels 7 and 8.\<close>

theorem MNISTDataset_items_witness:
  "length [Tensor [Scalar (3::nat)], Tensor [Scalar 4]] = length [Scalar (7::int), Scalar 8]
   \<and> (0::int) \<le> 1 \<and> (1::int) < int (length [Scalar (7::int), Scalar 8])
   \<and> MNISTDataset_len (MNISTDataset_init real
        (Tensor [Tensor [Scalar (3::nat)], Tensor [Scalar 4]])
        (Tensor [Scalar (7::int), Scalar 8]))
      = Inr 2
   \<and> MNISTDataset_getitem (MNISTDataset_init real
        (Tensor [Tensor [Scalar (3::nat)], Tensor [Scalar 4]])
        (Tensor [Scalar (7::int), Scalar 8])) 1
      = Inr (Tensor [Scalar 4], Scalar 8)"
  using MNISTDataset_items [of "[Tensor [Scalar (3::nat)], Tensor [Scalar 4]]"
      "[Scalar (7::int), Scalar 8]" 1 real]
  by (simp add: tensor_float_def)

section \<open>The curve and its loss\<close>

text \<open>
  C8: for every real \<open>t\<close>, \<^verbatim>\<open>loss(t)\<close> is
  \<open>sqrt ((sin t - 0.5)\<^sup>2 + (2 cos t + cos 2t + 0.75)\<^sup>2)\<close>, which is the Euclidean distance
  in the plane from the origin to \<^verbatim>\<open>curve(t)\<close>, and it is not negative.
\<close>

theorem loss_distance:
  "loss t = sqrt ((sin t - 0.5)\<^sup>2 + (2 * cos t + cos (2 * t) + 0.75)\<^sup>2)
   \<and> loss t = dist (0 :: complex) (Complex (fst (curve t)) (snd (curve t)))
   \<and> 0 \<le> loss t"
  by (simp add: loss_def curve_def Let_def mult.commute dist_norm complex_norm
      norm_minus_commute)

section \<open>The network\<close>

lemma length_concat_uniform:
  "list_all (\<lambda>r. length r = k) xs \<Longrightarrow> length (concat xs) = length xs * k"
  by (induction xs) simp_all

lemma Flatten_shape:
  assumes "image_batch N x"
  shows "dtype (Flatten x) = dtype x \<and> length (elems (Flatten x)) = N
       \<and> list_all (\<lambda>row. length row = 28 * 28) (elems (Flatten x))"
proof -
  have "length (concat img) = 28 * 28"
    if "length img = 28 \<and> list_all (\<lambda>row. length row = 28) img" for img :: "f32 list list"
    using that length_concat_uniform [of 28 img] by simp
  with assms show ?thesis
    by (auto simp: image_batch_def Flatten_def list_all_iff)
qed

lemma Linear_shape:
  assumes "linear_params n_in n_out p" and "dtype x = Float32"
    and "list_all (\<lambda>row. length row = n_in) (elems x)"
  shows "\<exists>y. layer_forward ops (Linear n_in n_out (fst p) (snd p)) x = Inr y
           \<and> dtype y = Float32 \<and> length (elems y) = length (elems x)
           \<and> list_all (\<lambda>row. length row = n_out) (elems y)"
  using assms by (simp add: linear_params_def list_all_iff)

lemma relu_sign: "relu v = NaN \<or> nonnegative (relu v)"
  by (cases v) simp_all

lemma ReLU_shape:
  "list_all (\<lambda>row. length row = n) (elems x) \<Longrightarrow>
   \<exists>y. layer_forward ops ReLU x = Inr y \<and> dtype y = dtype x
      \<and> length (elems y) = length (elems x)
      \<and> list_all (\<lambda>row. length row = n) (elems y)
      \<and> nonnegative_or_nan y"
  by (simp add: list_all_iff nonnegative_or_nan_def relu_sign)

lemma Linear_dtype:
  "dtype x \<noteq> Float32 \<Longrightarrow> layer_forward ops (Linear n_in n_out W b) x = Inl RuntimeError"
  by simp

text \<open>
  C9, amended: for a \<^verbatim>\<open>float32\<close> batch \<open>x\<close> of shape \<open>[N, 28, 28]\<close> and parameters of the
  shapes the constructor creates, whatever the float arithmetic does, \<^verbatim>\<open>forward\<close> raises
  no error and returns a \<^verbatim>\<open>float32\<close> tensor of shape \<open>[N, 10]\<close>, and because the last
  layer is a ReLU every component is NaN or not negative. For a batch of another
  element type \<^verbatim>\<open>forward\<close> raises \<^verbatim>\<open>RuntimeError\<close>.
\<close>

theorem forward_shape:
  assumes "image_batch N x"
    and "linear_params (28 * 28) 512 p1" and "linear_params 512 512 p2"
    and "linear_params 512 10 p3"
  shows "(dtype x = Float32 \<longrightarrow>
           (\<exists>y. NeuralNetwork_forward ops (NeuralNetwork_init p1 p2 p3) x = Inr y
              \<and> dtype y = Float32 \<and> logits_shape N y \<and> nonnegative_or_nan y))
       \<and> (dtype x \<noteq> Float32 \<longrightarrow>
           NeuralNetwork_forward ops (NeuralNetwork_init p1 p2 p3) x = Inl RuntimeError)"
proof (intro conjI impI)
  assume f: "dtype x = Float32"
  let ?x0 = "Flatten x"
  from Flatten_shape [OF assms(1)] f
  have s0: "dtype ?x0 = Float32" "length (elems ?x0) = N"
    "list_all (\<lambda>row. length row = 28 * 28) (elems ?x0)" by simp_all
  from Linear_shape [OF assms(2) s0(1,3)] obtain x1 where
    x1: "layer_forward ops (Linear (28 * 28) 512 (fst p1) (snd p1)) ?x0 = Inr x1"
      "dtype x1 = Float32" "length (elems x1) = length (elems ?x0)"
      "list_all (\<lambda>row. length row = 512) (elems x1)" by blast
  from ReLU_shape [OF x1(4)] obtain x2 where
    x2: "layer_forward ops ReLU x1 = Inr x2" "dtype x2 = dtype x1"
      "length (elems x2) = length (elems x1)"
      "list_all (\<lambda>row. length row = 512) (elems x2)" by blast
  from x2(2) x1(2) have d2: "dtype x2 = Float32" by simp
  from Linear_shape [OF assms(3) d2 x2(4)] obtain x3 where
    x3: "layer_forward ops (Linear 512 512 (fst p2) (snd p2)) x2 = Inr x3"
      "dtype x3 = Float32" "length (elems x3) = length (elems x2)"
      "list_all (\<lambda>row. length row = 512) (elems x3)" by blast
  from ReLU_shape [OF x3(4)] obtain x4 where
    x4: "layer_forward ops ReLU x3 = Inr x4" "dtype x4 = dtype x3"
      "length (elems x4) = length (elems x3)"
      "list_all (\<lambda>row. length row = 512) (elems x4)" by blast
  from x4(2) x3(2) have d4: "dtype x4 = Float32" by simp
  from Linear_shape [OF assms(4) d4 x4(4)] obtain x5 where
    x5: "layer_forward ops (Linear 512 10 (fst p3) (snd p3)) x4 = Inr x5"
      "dtype x5 = Float32" "length (elems x5) = length (elems x4)"
      "list_all (\<lambda>row. length row = 10) (elems x5)" by blast
  from ReLU_shape [OF x5(4)] obtain x6 where
    x6: "layer_forward ops ReLU x5 = Inr x6" "dtype x6 = dtype x5"
      "length (elems x6) = length (elems x5)"
      "list_all (\<lambda>row. length row = 10) (elems x6)"
      "nonnegative_or_nan x6" by blast
  have "NeuralNetwork_forward ops (NeuralNetwork_init p1 p2 p3) x = Inr x6"
    using x1(1) x2(1) x3(1) x4(1) x5(1) x6(1)
    by (simp add: NeuralNetwork_forward_def NeuralNetwork_init_def del: layer_forward.simps)
  moreover have "dtype x6 = Float32" using x6(2) x5(2) by simp
  moreover have "logits_shape N x6"
    using s0(2) x1(3) x2(3) x3(3) x4(3) x5(3) x6(3,4) by (simp add: logits_shape_def)
  ultimately show "\<exists>y. NeuralNetwork_forward ops (NeuralNetwork_init p1 p2 p3) x = Inr y
      \<and> dtype y = Float32 \<and> logits_shape N y \<and> nonnegative_or_nan y"
    using x6(5) by blast
next
  assume "dtype x \<noteq> Float32"
  then show "NeuralNetwork_forward ops (NeuralNetwork_init p1 p2 p3) x = Inl RuntimeError"
    by (simp add: NeuralNetwork_forward_def NeuralNetwork_init_def Flatten_def)
qed

lemma concat_replicate_replicate:
  "concat (replicate m (replicate n v)) = replicate (m * n) v"
  by (induction m) (simp_all add: replicate_add)

lemma Flatten_constant:
  "Flatten (constant_batch d N v) = \<lparr>dtype = d, elems = replicate N (replicate (28 * 28) v)\<rparr>"
  by (simp add: Flatten_def constant_batch_def concat_replicate_replicate)

lemma foldl_exact_add:
  "foldl exact_add (Finite a) (replicate n (Finite b)) = Finite (a + real n * b)"
  by (induction n arbitrary: a) (simp_all add: algebra_simps)

lemma exact_add_NaN: "exact_add u NaN = NaN"
  by (cases u) simp_all

lemma foldl_exact_add_NaN: "foldl exact_add NaN (replicate n NaN) = NaN"
  by (induction n) simp_all

lemma exact_ops_simps: "fadd exact_ops = exact_add" "fmul exact_ops = exact_mul"
  by (simp_all add: exact_ops_def)

lemma dot_constant:
  "dot exact_ops (replicate n (Finite w)) (replicate n (Finite v)) = Finite (real n * (w * v))"
  by (simp add: dot_def exact_ops_simps foldl_exact_add)

lemma dot_NaN:
  "0 < n \<Longrightarrow> dot exact_ops (replicate n (Finite w)) (replicate n NaN) = NaN"
  by (cases n) (simp_all add: dot_def exact_ops_simps exact_add_NaN foldl_exact_add_NaN)

lemma Linear_constant:
  "layer_forward exact_ops
     (Linear n m (fst (constant_params n m w c)) (snd (constant_params n m w c)))
     \<lparr>dtype = Float32, elems = replicate N (replicate n (Finite v))\<rparr>
   = Inr \<lparr>dtype = Float32, elems = replicate N (replicate m (Finite (real n * (w * v) + c)))\<rparr>"
  by (simp add: constant_params_def list_all_iff dot_constant exact_ops_simps)

lemma Linear_NaN:
  "0 < n \<Longrightarrow>
   layer_forward exact_ops
     (Linear n m (fst (constant_params n m w c)) (snd (constant_params n m w c)))
     \<lparr>dtype = Float32, elems = replicate N (replicate n NaN)\<rparr>
   = Inr \<lparr>dtype = Float32, elems = replicate N (replicate m NaN)\<rparr>"
  by (simp add: constant_params_def list_all_iff dot_NaN exact_ops_simps)

lemma ReLU_constant:
  "layer_forward ops ReLU \<lparr>dtype = d, elems = replicate N (replicate m v)\<rparr>
   = Inr \<lparr>dtype = d, elems = replicate N (replicate m (relu v))\<rparr>"
  by simp

lemma constant_batch_shape: "image_batch N (constant_batch d N v)"
  by (simp add: image_batch_def constant_batch_def list_all_iff)

lemma constant_params_shape: "linear_params n m (constant_params n m w c)"
  by (simp add: linear_params_def constant_params_def list_all_iff)

lemma averaging_forward:
  "NeuralNetwork_forward exact_ops averaging_network (constant_batch Float32 N (Finite 1))
   = Inr \<lparr>dtype = Float32, elems = replicate N (replicate 10 (Finite 0))\<rparr>"
  by (simp add: NeuralNetwork_forward_def averaging_network_def NeuralNetwork_init_def
      Flatten_constant Linear_constant ReLU_constant del: layer_forward.simps)

lemma averaging_before_ReLU:
  "Sequential exact_ops (butlast (linear_relu_stack averaging_network))
     (Flatten (constant_batch Float32 N (Finite 1)))
   = Inr \<lparr>dtype = Float32, elems = replicate N (replicate 10 (Finite (- 1)))\<rparr>"
  by (simp add: averaging_network_def NeuralNetwork_init_def
      Flatten_constant Linear_constant ReLU_constant del: layer_forward.simps)

lemma averaging_forward_NaN:
  "NeuralNetwork_forward exact_ops averaging_network (constant_batch Float32 N NaN)
   = Inr \<lparr>dtype = Float32, elems = replicate N (replicate 10 NaN)\<rparr>"
  by (simp add: NeuralNetwork_forward_def averaging_network_def NeuralNetwork_init_def
      Flatten_constant Linear_NaN ReLU_constant del: layer_forward.simps)

text \<open>
  C9, as stated: for every batch of shape \<open>[N, 28, 28]\<close>, \<^verbatim>\<open>forward\<close> returns a tensor of
  shape \<open>[N, 10]\<close> without a negative component. This fails at a batch of one image of
  bytes, where \<^verbatim>\<open>forward\<close> raises \<^verbatim>\<open>RuntimeError\<close>, and at a \<^verbatim>\<open>float32\<close> batch of one image
  whose pixels are NaN, where every component returned is NaN.
\<close>

theorem forward_counterexample:
  "image_batch 1 (constant_batch UInt8 1 (Finite 0))
   \<and> \<not> returns_nonnegative_logits exact_ops averaging_network 1
         (constant_batch UInt8 1 (Finite 0))
   \<and> image_batch 1 (constant_batch Float32 1 NaN)
   \<and> \<not> returns_nonnegative_logits exact_ops averaging_network 1
         (constant_batch Float32 1 NaN)"
proof -
  have "NeuralNetwork_forward exact_ops averaging_network (constant_batch UInt8 1 (Finite 0))
      = Inl RuntimeError"
    by (simp add: NeuralNetwork_forward_def averaging_network_def NeuralNetwork_init_def
        Flatten_constant)
  then show ?thesis
    by (simp add: returns_nonnegative_logits_def averaging_forward_NaN constant_batch_shape
        all_nonnegative_def list_all_iff)
qed

text \<open>
  C9 at a \<^verbatim>\<open>float32\<close> batch of two images with every pixel 1 and the averaging network:
  the last linear layer gives -1 in every component and the ReLU turns it into 0. At a
  batch of 64-bit integers \<^verbatim>\<open>forward\<close> raises \<^verbatim>\<open>RuntimeError\<close>.
\<close>

theorem forward_shape_witness:
  "image_batch 2 (constant_batch Float32 2 (Finite 1))
   \<and> dtype (constant_batch Float32 2 (Finite 1)) = Float32
   \<and> (\<exists>y. NeuralNetwork_forward exact_ops averaging_network
            (constant_batch Float32 2 (Finite 1)) = Inr y
          \<and> dtype y = Float32 \<and> logits_shape 2 y \<and> nonnegative_or_nan y)
   \<and> NeuralNetwork_forward exact_ops averaging_network (constant_batch Float32 2 (Finite 1))
       = Inr \<lparr>dtype = Float32, elems = [replicate 10 (Finite 0), replicate 10 (Finite 0)]\<rparr>
   \<and> Sequential exact_ops (butlast (linear_relu_stack averaging_network))
         (Flatten (constant_batch Float32 2 (Finite 1)))
       = Inr \<lparr>dtype = Float32, elems = [replicate 10 (Finite (- 1)), replicate 10 (Finite (- 1))]\<rparr>
   \<and> image_batch 1 (constant_batch Int64 1 (Finite 1))
   \<and> NeuralNetwork_forward exact_ops averaging_network (constant_batch Int64 1 (Finite 1))
       = Inl RuntimeError"
proof -
  have d: "dtype (constant_batch Float32 2 (Finite 1)) = Float32"
    "dtype (constant_batch Int64 1 (Finite 1)) \<noteq> Float32"
    by (simp_all add: constant_batch_def)
  have two: "replicate 2 r = [r, r]" for r :: "f32 list"
    by (simp add: numeral_2_eq_2)
  note p = constant_params_shape
  have a: "\<exists>y. NeuralNetwork_forward exact_ops averaging_network
            (constant_batch Float32 2 (Finite 1)) = Inr y
          \<and> dtype y = Float32 \<and> logits_shape 2 y \<and> nonnegative_or_nan y"
    using forward_shape [OF constant_batch_shape p p p, THEN conjunct1, rule_format, OF d(1)]
    by (simp add: averaging_network_def)
  have b: "NeuralNetwork_forward exact_ops averaging_network
      (constant_batch Int64 1 (Finite 1)) = Inl RuntimeError"
    using forward_shape [OF constant_batch_shape p p p, THEN conjunct2, rule_format, OF d(2)]
    by (simp add: averaging_network_def)
  from a b d constant_batch_shape averaging_forward [of 2] averaging_before_ReLU [of 2]
  show ?thesis
    by (simp add: two)
qed

end
